theory Spec2Isabelle
  imports Main
begin

section \<open>Data model\<close>

text \<open>
  The handlers of \<^verbatim>\<open>app/views/tasks.py\<close> work on the rows of three tables (Team, Task,
  Comment) and on the flash messages of the request. A user is identified by its primary
  key: Django compares model instances by primary key, so \<^verbatim>\<open>request.user == task.creator\<close>
  is equality of keys and \<^verbatim>\<open>request.user in task.assigned_to.all()\<close> is membership of
  the key. A date is a day number; the status is the string the code compares with.
\<close>

type_synonym user = nat
type_synonym date = nat

text \<open>
  A value submitted with a request is a Python \<^verbatim>\<open>str\<close>, a sequence of Unicode code
  points; the body of a comment is stored as it was submitted, so it is one too.
\<close>

type_synonym codepoint = nat
type_synonym str = "codepoint list"

record team =
  team_id :: nat
  leader :: user
  members :: "user list"

text \<open>
  \<^verbatim>\<open>task.team\<close> is the related Team row or None. No handler of this file writes a team,
  so the row the foreign key points to is kept inside the task. \<^verbatim>\<open>assigned_to\<close> is the
  many-to-many relation of the task, as the list of its related users.
\<close>

record task =
  task_id :: nat
  title :: string
  creator :: user
  team :: "team option"
  assigned_to :: "user list"
  status :: string
  accepted_date :: "date option"
  accepted_by :: "user option"
  completed_date :: "date option"

record comment =
  author :: user
  task :: nat
  body :: str

datatype level = SUCCESS | ERROR

record state =
  Team_objects :: "team list"
  Task_objects :: "task list"
  Comment_objects :: "comment list"
  messages :: "(level \<times> string) list"

text \<open>
  A request carries the user (None for an anonymous visitor), the HTTP method and the
  POST data, a dictionary from field names to submitted values.
\<close>

type_synonym post = "string \<rightharpoonup> str"

record request =
  user :: "user option"
  "method" :: string
  POST :: post

text \<open>
  A form object is the arguments it was built from: the bound data (None for an unbound
  form), and for the edit form the instance and the initial values.
\<close>

datatype form =
    TaskCreationForm "post option" "team list"
  | TaskEditForm "post option" task "user list option" bool "team list"

datatype ctx_value =
    CUser user
  | CForm form
  | CTask task
  | CTasks "task list"
  | CTeams "team list"
  | CBool bool

datatype target = ToObject nat | ToName string

datatype response =
    HttpResponseRedirect target
  | Rendered string "(string \<times> ctx_value) list"
  | HttpResponseNotAllowed
  | RedirectToLogin

datatype error = PermissionDenied | Http404 | AttributeError

type_synonym result = "(error + response) \<times> state"

text \<open>
  What the handlers take from outside: today's date, and the two forms of
  \<^verbatim>\<open>app.forms\<close>, whose classes are not part of \<^verbatim>\<open>tasks.py\<close>: whether a form validates,
  and the model instance it builds from its cleaned data.
\<close>

record env =
  today :: date
  is_valid :: "form \<Rightarrow> bool"
  form_instance :: "form \<Rightarrow> task"

section \<open>The framework operations the handlers call\<close>

text \<open>\<^verbatim>\<open>@login_required\<close>: an anonymous visitor is sent to the login page.\<close>

definition login_required :: "(user \<Rightarrow> request \<Rightarrow> state \<Rightarrow> result) \<Rightarrow> request \<Rightarrow> state \<Rightarrow> result" where
  "login_required view r s =
     (case user r of
        None \<Rightarrow> (Inr RedirectToLogin, s)
      | Some u \<Rightarrow> view u r s)"

text \<open>\<^verbatim>\<open>@require_http_methods\<close>: any other method is answered with 405.\<close>

definition require_http_methods :: "string list \<Rightarrow> (request \<Rightarrow> state \<Rightarrow> result) \<Rightarrow> request \<Rightarrow> state \<Rightarrow> result" where
  "require_http_methods ms view r s =
     (if method r \<in> set ms then view r s else (Inr HttpResponseNotAllowed, s))"

text \<open>\<^verbatim>\<open>get_object_or_404(Task, id=task_id)\<close>: the row with that id, if there is one.\<close>

definition get_object :: "task list \<Rightarrow> nat \<Rightarrow> task option" where
  "get_object ts tid = find (\<lambda>t. task_id t = tid) ts"

text \<open>\<^verbatim>\<open>task.save()\<close> on a stored task: the row with the task's id is overwritten.\<close>

definition Task_update :: "task \<Rightarrow> task list \<Rightarrow> task list" where
  "Task_update t ts = map (\<lambda>t'. if task_id t' = task_id t then t else t') ts"

text \<open>
  \<^verbatim>\<open>new_task.save()\<close> on a new task: the row gets the next id and is appended; a new row
  has no related users yet.
\<close>

definition fresh_id :: "task list \<Rightarrow> nat" where
  "fresh_id ts = Suc (foldr max (map task_id ts) 0)"

definition Task_insert :: "task \<Rightarrow> task list \<Rightarrow> task \<times> task list" where
  "Task_insert t ts =
     (let row = t\<lparr>task_id := fresh_id ts, assigned_to := []\<rparr> in (row, ts @ [row]))"

text \<open>\<^verbatim>\<open>task.assigned_to.add(u)\<close>: a user already related is not added twice.\<close>

definition assigned_to_add :: "user \<Rightarrow> task \<Rightarrow> task" where
  "assigned_to_add u t =
     t\<lparr>assigned_to := (if u \<in> set (assigned_to t) then assigned_to t else assigned_to t @ [u])\<rparr>"

text \<open>
  \<^verbatim>\<open>task.delete()\<close>: the row is removed, and with it the comments that point to it
  (Django's cascade).
\<close>

definition Task_delete :: "task \<Rightarrow> state \<Rightarrow> state" where
  "Task_delete t s =
     s\<lparr>Task_objects := filter (\<lambda>t'. task_id t' \<noteq> task_id t) (Task_objects s),
       Comment_objects := filter (\<lambda>c. task c \<noteq> task_id t) (Comment_objects s)\<rparr>"

definition add_message :: "level \<Rightarrow> string \<Rightarrow> state \<Rightarrow> state" where
  "add_message l m s = s\<lparr>messages := messages s @ [(l, m)]\<rparr>"

text \<open>
  \<^verbatim>\<open>str.strip()\<close> removes leading and trailing whitespace. The whitespace of a Python
  \<^verbatim>\<open>str\<close> is the set of code points for which \<^verbatim>\<open>str.isspace()\<close> holds: U+0009 to
  U+000D, U+001C to U+0020, U+0085, U+00A0, U+1680, U+2000 to U+200A, U+2028, U+2029, U+202F,
  U+205F and U+3000.
\<close>

definition isspace :: "codepoint \<Rightarrow> bool" where
  "isspace c =
     ((0x9 \<le> c \<and> c \<le> 0xD) \<or> (0x1C \<le> c \<and> c \<le> 0x20) \<or> c = 0x85 \<or> c = 0xA0 \<or>
      c = 0x1680 \<or> (0x2000 \<le> c \<and> c \<le> 0x200A) \<or> c = 0x2028 \<or> c = 0x2029 \<or>
      c = 0x202F \<or> c = 0x205F \<or> c = 0x3000)"

definition strip :: "str \<Rightarrow> str" where
  "strip b = rev (dropWhile isspace (rev (dropWhile isspace b)))"

text \<open>
  Modelled from the spec: \<^verbatim>\<open>app.forms.TaskCreationForm\<close> and the Task model of
  \<^verbatim>\<open>app.models\<close> are not among the source files. \<^verbatim>\<open>form.save(commit=False)\<close> gives the
  instance built from the form's cleaned data; the spec says that a task is created in
  PLAN, with no acceptance and no completion yet.
\<close>

definition TaskCreationForm_save :: "env \<Rightarrow> form \<Rightarrow> task" where
  "TaskCreationForm_save e f =
     (form_instance e f)\<lparr>status := ''PLAN'', accepted_date := None, accepted_by := None,
        completed_date := None\<rparr>"

section \<open>The handlers\<close>

subsection \<open>task\_create\<close>

definition task_create_body :: "env \<Rightarrow> user \<Rightarrow> request \<Rightarrow> state \<Rightarrow> result" where
  "task_create_body e u r s =
     (let teams = filter (\<lambda>tm. leader tm = u) (Team_objects s) in
      if method r = ''POST'' then
        (let form = TaskCreationForm (Some (POST r)) teams in
         if is_valid e form then
           (let new_task = TaskCreationForm_save e form;
                new_task = new_task\<lparr>creator := u\<rparr>;
                (new_task, rows) = Task_insert new_task (Task_objects s);
                new_task = assigned_to_add u new_task;
                s = s\<lparr>Task_objects := Task_update new_task rows\<rparr>;
                s = add_message SUCCESS
                      (''Task: `'' @ title new_task @ ''` is created successfully!'') s
            in (Inr (HttpResponseRedirect (ToObject (task_id new_task))), s))
         else
           (Inr (Rendered ''app/task_create-edit.html''
                   [(''user'', CUser u), (''form'', CForm form), (''creation'', CBool True)]), s))
      else
        (let form = TaskCreationForm None teams in
         (Inr (Rendered ''app/task_create-edit.html''
                 [(''user'', CUser u), (''form'', CForm form), (''teams'', CTeams teams),
                  (''creation'', CBool True)]), s)))"

definition task_create :: "env \<Rightarrow> request \<Rightarrow> state \<Rightarrow> result" where
  "task_create e =
     login_required (\<lambda>u. require_http_methods [''GET'', ''POST''] (task_create_body e u))"

subsection \<open>task\_edit\<close>

definition task_edit_body :: "env \<Rightarrow> user \<Rightarrow> nat \<Rightarrow> request \<Rightarrow> state \<Rightarrow> result" where
  "task_edit_body e u tid r s =
     (case get_object (Task_objects s) tid of
        None \<Rightarrow> (Inl Http404, s)
      | Some t \<Rightarrow>
          if u = creator t \<and> status t = ''PLAN'' then
            (let teams = filter (\<lambda>tm. leader tm = u) (Team_objects s);
                 has_team = (case team t of Some _ \<Rightarrow> True | None \<Rightarrow> False);
                 mems = (case team t of Some tm \<Rightarrow> Some (members tm) | None \<Rightarrow> None) in
             if method r = ''POST'' then
               (let form = TaskEditForm (Some (POST r)) t mems has_team teams in
                if is_valid e form then
                  (let t' = (form_instance e form)\<lparr>task_id := task_id t\<rparr>;
                       s = s\<lparr>Task_objects := Task_update t' (Task_objects s)\<rparr>;
                       s = add_message SUCCESS ''The changes are saved successfully!'' s
                   in (Inr (HttpResponseRedirect (ToObject (task_id t))), s))
                else
                  (Inr (Rendered ''app/task_create-edit.html''
                          [(''user'', CUser u), (''form'', CForm form), (''task'', CTask t),
                           (''creation'', CBool False)]), s))
             else
               (let form = TaskEditForm None t mems has_team teams in
                (Inr (Rendered ''app/task_create-edit.html''
                        [(''user'', CUser u), (''form'', CForm form), (''task'', CTask t),
                         (''creation'', CBool False)]), s)))
          else (Inl PermissionDenied, s))"

definition task_edit :: "env \<Rightarrow> nat \<Rightarrow> request \<Rightarrow> state \<Rightarrow> result" where
  "task_edit e tid =
     login_required (\<lambda>u. require_http_methods [''GET'', ''POST''] (task_edit_body e u tid))"

subsection \<open>task\_delete\<close>

definition task_delete_body :: "user \<Rightarrow> nat \<Rightarrow> request \<Rightarrow> state \<Rightarrow> result" where
  "task_delete_body u tid r s =
     (case get_object (Task_objects s) tid of
        None \<Rightarrow> (Inl Http404, s)
      | Some t \<Rightarrow>
          if u = creator t \<and> status t = ''PLAN'' then
            (let s = Task_delete t s;
                 s = add_message SUCCESS ''The task is deleted successfully!'' s
             in (Inr (HttpResponseRedirect (ToName ''app:index'')), s))
          else (Inl PermissionDenied, s))"

definition task_delete :: "nat \<Rightarrow> request \<Rightarrow> state \<Rightarrow> result" where
  "task_delete tid = login_required (\<lambda>u. require_http_methods [''GET''] (task_delete_body u tid))"

subsection \<open>tasks and completed\_tasks\<close>

text \<open>
  \<^verbatim>\<open>Task.objects.filter(Q(creator=u) | Q(assigned_to=u))\<close> joins every task with its
  related users (one row with no user when it has none) and keeps the joined rows that
  satisfy the condition, so a task can come out several times; \<^verbatim>\<open>distinct()\<close> removes
  the repetitions.
\<close>

definition joined :: "task \<Rightarrow> (task \<times> user option) list" where
  "joined t = (if assigned_to t = [] then [(t, None)] else map (\<lambda>a. (t, Some a)) (assigned_to t))"

definition filter_creator_or_assigned :: "user \<Rightarrow> task list \<Rightarrow> task list" where
  "filter_creator_or_assigned u ts =
     map fst (filter (\<lambda>(t, a). creator t = u \<or> a = Some u) (concat (map joined ts)))"

definition tasks_query :: "user \<Rightarrow> task list \<Rightarrow> task list" where
  "tasks_query u ts =
     remdups (filter (\<lambda>t. \<not> status t = ''COMP'') (filter_creator_or_assigned u ts))"

definition tasks_body :: "user \<Rightarrow> request \<Rightarrow> state \<Rightarrow> result" where
  "tasks_body u r s =
     (let tasks = tasks_query u (Task_objects s)
      in (Inr (Rendered ''app/tasks.html''
                 [(''user'', CUser u), (''tasks'', CTasks tasks), (''completed'', CBool False)]), s))"

definition tasks :: "request \<Rightarrow> state \<Rightarrow> result" where
  "tasks = login_required (\<lambda>u. require_http_methods [''GET''] (tasks_body u))"

definition completed_tasks_query :: "user \<Rightarrow> task list \<Rightarrow> task list" where
  "completed_tasks_query u ts =
     remdups (filter (\<lambda>t. status t = ''COMP'') (filter_creator_or_assigned u ts))"

definition completed_tasks_body :: "user \<Rightarrow> request \<Rightarrow> state \<Rightarrow> result" where
  "completed_tasks_body u r s =
     (let tasks = completed_tasks_query u (Task_objects s)
      in (Inr (Rendered ''app/tasks.html''
                 [(''user'', CUser u), (''tasks'', CTasks tasks), (''completed'', CBool True)]), s))"

definition completed_tasks :: "request \<Rightarrow> state \<Rightarrow> result" where
  "completed_tasks = login_required (\<lambda>u. require_http_methods [''GET''] (completed_tasks_body u))"

subsection \<open>task\_detail\<close>

definition task_detail_allowed :: "user \<Rightarrow> task \<Rightarrow> bool" where
  "task_detail_allowed u t =
     (if u = creator t \<or> u \<in> set (assigned_to t) then True
      else (case team t of
              Some tm \<Rightarrow> (if u \<in> set (members tm) then True else False)
            | None \<Rightarrow> False))"

definition task_detail_body :: "user \<Rightarrow> nat \<Rightarrow> request \<Rightarrow> state \<Rightarrow> result" where
  "task_detail_body u tid r s =
     (case get_object (Task_objects s) tid of
        None \<Rightarrow> (Inl Http404, s)
      | Some t \<Rightarrow>
          (let allowed = task_detail_allowed u t in
           if allowed then
             (Inr (Rendered ''app/task_detail.html'' [(''user'', CUser u), (''task'', CTask t)]), s)
           else (Inl PermissionDenied, s)))"

definition task_detail :: "nat \<Rightarrow> request \<Rightarrow> state \<Rightarrow> result" where
  "task_detail tid = login_required (\<lambda>u. require_http_methods [''GET''] (task_detail_body u tid))"

subsection \<open>task\_accept\<close>

definition task_accept_body :: "env \<Rightarrow> user \<Rightarrow> nat \<Rightarrow> request \<Rightarrow> state \<Rightarrow> result" where
  "task_accept_body e u tid r s =
     (case get_object (Task_objects s) tid of
        None \<Rightarrow> (Inl Http404, s)
      | Some t \<Rightarrow>
          if u \<in> set (assigned_to t) then
            (if status t = ''PLAN'' then
               (let t = t\<lparr>status := ''PROG''\<rparr>;
                    t = t\<lparr>accepted_date := Some (today e)\<rparr>;
                    t = t\<lparr>accepted_by := Some u\<rparr>;
                    s = s\<lparr>Task_objects := Task_update t (Task_objects s)\<rparr>;
                    s = add_message SUCCESS ''The task has marked as In-Progress successfully!'' s
                in (Inr (HttpResponseRedirect (ToObject (task_id t))), s))
             else (Inl PermissionDenied, s))
          else (Inl PermissionDenied, s))"

definition task_accept :: "env \<Rightarrow> nat \<Rightarrow> request \<Rightarrow> state \<Rightarrow> result" where
  "task_accept e tid = login_required (\<lambda>u. require_http_methods [''GET''] (task_accept_body e u tid))"

subsection \<open>task\_mark\_completed\<close>

definition task_mark_completed_body :: "env \<Rightarrow> user \<Rightarrow> nat \<Rightarrow> request \<Rightarrow> state \<Rightarrow> result" where
  "task_mark_completed_body e u tid r s =
     (case get_object (Task_objects s) tid of
        None \<Rightarrow> (Inl Http404, s)
      | Some t \<Rightarrow>
          if u = creator t \<or> u \<in> set (assigned_to t) then
            (if status t = ''PROG'' then
               (let t = t\<lparr>status := ''COMP''\<rparr>;
                    t = t\<lparr>completed_date := Some (today e)\<rparr>;
                    s = s\<lparr>Task_objects := Task_update t (Task_objects s)\<rparr>;
                    s = add_message SUCCESS ''The task is marked as Completed successfully!'' s
                in (Inr (HttpResponseRedirect (ToObject (task_id t))), s))
             else (Inl PermissionDenied, s))
          else (Inl PermissionDenied, s))"

definition task_mark_completed :: "env \<Rightarrow> nat \<Rightarrow> request \<Rightarrow> state \<Rightarrow> result" where
  "task_mark_completed e tid =
     login_required (\<lambda>u. require_http_methods [''GET''] (task_mark_completed_body e u tid))"

subsection \<open>task\_comment\<close>

definition task_comment_allowed :: "user \<Rightarrow> task \<Rightarrow> bool" where
  "task_comment_allowed u t =
     (if u = creator t \<or> u \<in> set (assigned_to t) then True
      else (case team t of
              Some tm \<Rightarrow> (if u \<in> set (members tm) then True else False)
            | None \<Rightarrow> False))"

text \<open>
  \<^verbatim>\<open>request.POST.get('comment_body')\<close> is None when the key is missing, and None has no
  \<^verbatim>\<open>strip\<close>: the call raises AttributeError. A string is true when it is not empty.
\<close>

definition task_comment_body :: "user \<Rightarrow> nat \<Rightarrow> request \<Rightarrow> state \<Rightarrow> result" where
  "task_comment_body u tid r s =
     (case get_object (Task_objects s) tid of
        None \<Rightarrow> (Inl Http404, s)
      | Some t \<Rightarrow>
          (let allowed = task_comment_allowed u t in
           if allowed then
             (case POST r ''comment_body'' of
                None \<Rightarrow> (Inl AttributeError, s)
              | Some b \<Rightarrow>
                  if strip b \<noteq> [] then
                    (let c = \<lparr>author = u, task = task_id t, body = b\<rparr>;
                         s = s\<lparr>Comment_objects := Comment_objects s @ [c]\<rparr>;
                         s = add_message SUCCESS ''The comment is added succesfully'' s
                     in (Inr (HttpResponseRedirect (ToObject (task_id t))), s))
                  else
                    (let s = add_message ERROR ''Missing required fields'' s
                     in (Inr (HttpResponseRedirect (ToObject (task_id t))), s)))
           else (Inl PermissionDenied, s)))"

definition task_comment :: "nat \<Rightarrow> request \<Rightarrow> state \<Rightarrow> result" where
  "task_comment tid = login_required (\<lambda>u. require_http_methods [''POST''] (task_comment_body u tid))"

text \<open>
  The row that \<^verbatim>\<open>task_create\<close> has stored when it returns: the instance of the form with
  the creator set, inserted, and the creator added to its assigned users.
\<close>

definition created_row :: "env \<Rightarrow> user \<Rightarrow> request \<Rightarrow> state \<Rightarrow> task" where
  "created_row e u r s =
     assigned_to_add u (fst (Task_insert
       ((TaskCreationForm_save e
           (TaskCreationForm (Some (POST r)) (filter (\<lambda>tm. leader tm = u) (Team_objects s))))
         \<lparr>creator := u\<rparr>)
       (Task_objects s)))"

section \<open>The specification's predicates\<close>

text \<open>
  The access rule in the specification's words: the requester is the creator, or is among
  the assigned users, or the task has a team and the requester is one of its members.
\<close>

definition spec_may_access :: "user \<Rightarrow> task \<Rightarrow> bool" where
  "spec_may_access u t =
     (u = creator t \<or> u \<in> set (assigned_to t) \<or>
      (case team t of Some tm \<Rightarrow> u \<in> set (members tm) | None \<Rightarrow> False))"

text \<open>A result that renders a page again, as opposed to a redirect or an error.\<close>

definition rerenders :: "result \<Rightarrow> bool" where
  "rerenders res = (case fst res of Inr (Rendered _ _) \<Rightarrow> True | _ \<Rightarrow> False)"

section \<open>Example data\<close>

definition env0 :: env where
  "env0 = \<lparr>today = 738000, is_valid = (\<lambda>f. True),
            form_instance = (\<lambda>f. \<lparr>task_id = 0, title = ''new task'', creator = 0, team = None,
              assigned_to = [5], status = ''COMP'', accepted_date = Some 1, accepted_by = Some 5,
              completed_date = Some 2\<rparr>)\<rparr>"

definition team0 :: team where
  "team0 = \<lparr>team_id = 1, leader = 7, members = [7, 9]\<rparr>"

definition task1 :: task where
  "task1 = \<lparr>task_id = 1, title = ''write report'', creator = 7, team = Some team0,
             assigned_to = [7, 8], status = ''PLAN'', accepted_date = None, accepted_by = None,
             completed_date = None\<rparr>"

definition task2 :: task where
  "task2 = \<lparr>task_id = 2, title = ''review'', creator = 8, team = None,
             assigned_to = [8, 7], status = ''PROG'', accepted_date = Some 737990,
             accepted_by = Some 8, completed_date = None\<rparr>"

definition task3 :: task where
  "task3 = \<lparr>task_id = 3, title = ''archive'', creator = 7, team = None,
             assigned_to = [7], status = ''COMP'', accepted_date = Some 737980,
             accepted_by = Some 7, completed_date = Some 737985\<rparr>"

definition state0 :: state where
  "state0 = \<lparr>Team_objects = [team0], Task_objects = [task1, task2, task3],
              Comment_objects = [], messages = []\<rparr>"

definition get_by :: "user \<Rightarrow> request" where
  "get_by u = \<lparr>user = Some u, method = ''GET'', POST = Map.empty\<rparr>"

definition post_by :: "user \<Rightarrow> post \<Rightarrow> request" where
  "post_by u d = \<lparr>user = Some u, method = ''POST'', POST = d\<rparr>"

section \<open>Lookups after a write\<close>

lemma get_object_SomeD:
  "get_object ts tid = Some t \<Longrightarrow> task_id t = tid \<and> t \<in> set ts"
  unfolding get_object_def by (induction ts) (auto split: if_splits)

lemma get_object_Task_update_same:
  "get_object ts tid = Some t \<Longrightarrow> task_id t' = tid \<Longrightarrow> get_object (Task_update t' ts) tid = Some t'"
  unfolding get_object_def Task_update_def by (induction ts) (auto split: if_splits)

lemma get_object_Task_update_other:
  "tid' \<noteq> task_id t' \<Longrightarrow> get_object (Task_update t' ts) tid' = get_object ts tid'"
  unfolding get_object_def Task_update_def by (induction ts) auto

lemma get_object_removed:
  "get_object (filter (\<lambda>t'. task_id t' \<noteq> tid) ts) tid = None"
  unfolding get_object_def by (induction ts) auto

lemma get_object_removed_other:
  "tid' \<noteq> tid \<Longrightarrow> get_object (filter (\<lambda>t'. task_id t' \<noteq> tid) ts) tid' = get_object ts tid'"
  unfolding get_object_def by (induction ts) auto

lemma task_id_le_foldr_max:
  "t \<in> set ts \<Longrightarrow> task_id t \<le> foldr max (map task_id ts) 0"
  by (induction ts) (auto simp: max_def)

lemma get_object_fresh_id: "get_object ts (fresh_id ts) = None"
proof -
  have "task_id t \<noteq> fresh_id ts" if "t \<in> set ts" for t
    using task_id_le_foldr_max[OF that] by (simp add: fresh_id_def)
  then show ?thesis
    unfolding get_object_def by (simp add: find_None_iff)
qed

lemma get_object_append_new:
  "get_object ts tid = None \<Longrightarrow> task_id row = tid \<Longrightarrow> get_object (ts @ [row]) tid = Some row"
  unfolding get_object_def by (induction ts) (auto split: if_splits)

lemma get_object_append_other:
  "task_id row \<noteq> tid' \<Longrightarrow> get_object (ts @ [row]) tid' = get_object ts tid'"
  unfolding get_object_def by (induction ts) auto

section \<open>What each handler does on an existing task\<close>

lemma task_accept_unfold:
  assumes "user r = Some u" "method r = ''GET''" "get_object (Task_objects s) tid = Some t"
  shows "task_accept e tid r s =
     (if u \<in> set (assigned_to t) \<and> status t = ''PLAN'' then
        (Inr (HttpResponseRedirect (ToObject tid)),
         s\<lparr>Task_objects :=
              Task_update (t\<lparr>status := ''PROG'', accepted_date := Some (today e), accepted_by := Some u\<rparr>)
                (Task_objects s),
           messages := messages s @ [(SUCCESS, ''The task has marked as In-Progress successfully!'')]\<rparr>)
      else (Inl PermissionDenied, s))"
  using assms get_object_SomeD[OF assms(3)]
  by (simp add: task_accept_def login_required_def require_http_methods_def task_accept_body_def
      add_message_def Let_def)

lemma task_mark_completed_unfold:
  assumes "user r = Some u" "method r = ''GET''" "get_object (Task_objects s) tid = Some t"
  shows "task_mark_completed e tid r s =
     (if (u = creator t \<or> u \<in> set (assigned_to t)) \<and> status t = ''PROG'' then
        (Inr (HttpResponseRedirect (ToObject tid)),
         s\<lparr>Task_objects :=
              Task_update (t\<lparr>status := ''COMP'', completed_date := Some (today e)\<rparr>) (Task_objects s),
           messages := messages s @ [(SUCCESS, ''The task is marked as Completed successfully!'')]\<rparr>)
      else (Inl PermissionDenied, s))"
  using assms get_object_SomeD[OF assms(3)]
  by (simp add: task_mark_completed_def login_required_def require_http_methods_def
      task_mark_completed_body_def add_message_def Let_def)

lemma task_delete_unfold:
  assumes "user r = Some u" "method r = ''GET''" "get_object (Task_objects s) tid = Some t"
  shows "task_delete tid r s =
     (if u = creator t \<and> status t = ''PLAN'' then
        (Inr (HttpResponseRedirect (ToName ''app:index'')),
         s\<lparr>Task_objects := filter (\<lambda>t'. task_id t' \<noteq> tid) (Task_objects s),
           Comment_objects := filter (\<lambda>c. task c \<noteq> tid) (Comment_objects s),
           messages := messages s @ [(SUCCESS, ''The task is deleted successfully!'')]\<rparr>)
      else (Inl PermissionDenied, s))"
  using assms get_object_SomeD[OF assms(3)]
  by (simp add: task_delete_def login_required_def require_http_methods_def task_delete_body_def
      Task_delete_def add_message_def Let_def)

lemma task_edit_denied:
  assumes "user r = Some u" "method r = ''GET'' \<or> method r = ''POST''"
    "get_object (Task_objects s) tid = Some t" "\<not> (u = creator t \<and> status t = ''PLAN'')"
  shows "task_edit e tid r s = (Inl PermissionDenied, s)"
  using assms
  by (auto simp add: task_edit_def login_required_def require_http_methods_def task_edit_body_def)

lemma task_edit_allowed:
  assumes "user r = Some u" "method r = ''GET'' \<or> method r = ''POST''"
    "get_object (Task_objects s) tid = Some t" "u = creator t \<and> status t = ''PLAN''"
  shows "\<exists>resp. fst (task_edit e tid r s) = Inr resp"
  using assms
  by (auto simp add: task_edit_def login_required_def require_http_methods_def task_edit_body_def
      Let_def)

lemma task_detail_unfold:
  assumes "user r = Some u" "method r = ''GET''" "get_object (Task_objects s) tid = Some t"
  shows "task_detail tid r s =
     (if task_detail_allowed u t then
        (Inr (Rendered ''app/task_detail.html'' [(''user'', CUser u), (''task'', CTask t)]), s)
      else (Inl PermissionDenied, s))"
  using assms
  by (simp add: task_detail_def login_required_def require_http_methods_def task_detail_body_def)

lemma task_comment_unfold:
  assumes "user r = Some u" "method r = ''POST''" "get_object (Task_objects s) tid = Some t"
  shows "task_comment tid r s =
     (if task_comment_allowed u t then
        (case POST r ''comment_body'' of
           None \<Rightarrow> (Inl AttributeError, s)
         | Some b \<Rightarrow>
             if strip b \<noteq> [] then
               (Inr (HttpResponseRedirect (ToObject tid)),
                s\<lparr>Comment_objects := Comment_objects s @ [\<lparr>author = u, task = tid, body = b\<rparr>],
                  messages := messages s @ [(SUCCESS, ''The comment is added succesfully'')]\<rparr>)
             else
               (Inr (HttpResponseRedirect (ToObject tid)),
                s\<lparr>messages := messages s @ [(ERROR, ''Missing required fields'')]\<rparr>))
      else (Inl PermissionDenied, s))"
  using assms get_object_SomeD[OF assms(3)]
  by (simp add: task_comment_def login_required_def require_http_methods_def task_comment_body_def
      add_message_def Let_def split: option.splits)

section \<open>The row task\_create stores, and the two queries\<close>

lemma created_row_fields:
  "task_id (created_row e u r s) = fresh_id (Task_objects s)"
  "creator (created_row e u r s) = u"
  "status (created_row e u r s) = ''PLAN''"
  "assigned_to (created_row e u r s) = [u]"
  by (simp_all add: created_row_def assigned_to_add_def Task_insert_def TaskCreationForm_save_def
      Let_def)

lemma task_create_unfold:
  assumes "user r = Some u" "method r = ''POST''"
    "is_valid e (TaskCreationForm (Some (POST r)) (filter (\<lambda>tm. leader tm = u) (Team_objects s)))"
  shows "fst (task_create e r s) = Inr (HttpResponseRedirect (ToObject (fresh_id (Task_objects s))))"
    and "Task_objects (snd (task_create e r s)) =
           Task_update (created_row e u r s)
             (Task_objects s @ [(created_row e u r s)\<lparr>assigned_to := []\<rparr>])"
  using assms
  by (simp_all add: task_create_def login_required_def require_http_methods_def
      task_create_body_def created_row_def TaskCreationForm_save_def Task_insert_def
      assigned_to_add_def add_message_def Let_def)

lemma joined_fst: "(t', a) \<in> set (joined t) \<Longrightarrow> t' = t"
  by (auto simp: joined_def split: if_splits)

lemma joined_Some: "(t, Some u) \<in> set (joined t) \<longleftrightarrow> u \<in> set (assigned_to t)"
  by (auto simp: joined_def)

lemma joined_nonempty: "\<exists>a. (t, a) \<in> set (joined t)"
  by (cases "assigned_to t") (auto simp: joined_def)

lemma set_filter_creator_or_assigned:
  "set (filter_creator_or_assigned u ts) =
     {t \<in> set ts. creator t = u \<or> u \<in> set (assigned_to t)}"
proof (intro set_eqI iffI)
  fix t assume "t \<in> set (filter_creator_or_assigned u ts)"
  then obtain a t0 where t0: "t0 \<in> set ts" and j: "(t, a) \<in> set (joined t0)"
    and c: "creator t = u \<or> a = Some u"
    unfolding filter_creator_or_assigned_def by auto
  from joined_fst[OF j] have eq: "t = t0" .
  from c j eq have "creator t = u \<or> u \<in> set (assigned_to t)"
    using joined_Some by auto
  with t0 eq show "t \<in> {t \<in> set ts. creator t = u \<or> u \<in> set (assigned_to t)}" by simp
next
  fix t assume "t \<in> {t \<in> set ts. creator t = u \<or> u \<in> set (assigned_to t)}"
  then have t: "t \<in> set ts" and c: "creator t = u \<or> u \<in> set (assigned_to t)" by simp_all
  from c have "\<exists>a. (t, a) \<in> set (joined t) \<and> (creator t = u \<or> a = Some u)"
  proof
    assume "creator t = u"
    then show ?thesis using joined_nonempty[of t] by auto
  next
    assume "u \<in> set (assigned_to t)"
    then have "(t, Some u) \<in> set (joined t)" by (simp add: joined_Some)
    then show ?thesis by blast
  qed
  then obtain a where "(t, a) \<in> set (joined t)" "creator t = u \<or> a = Some u" by blast
  with t show "t \<in> set (filter_creator_or_assigned u ts)"
    unfolding filter_creator_or_assigned_def by force
qed

section \<open>The access predicates and the comment handler\<close>

lemma task_detail_allowed_iff: "task_detail_allowed u t = spec_may_access u t"
  by (simp add: task_detail_allowed_def spec_may_access_def split: option.splits)

lemma task_comment_allowed_iff: "task_comment_allowed u t = spec_may_access u t"
  by (simp add: task_comment_allowed_def spec_may_access_def split: option.splits)

lemma task_comment_not_denied:
  assumes "user r = Some u" "method r = ''POST''" "get_object (Task_objects s) tid = Some t"
  shows "(fst (task_comment tid r s) \<noteq> Inl PermissionDenied) = task_comment_allowed u t"
  unfolding task_comment_unfold[OF assms]
  by (simp split: option.splits)

text \<open>
  \<^verbatim>\<open>strip\<close> leaves nothing exactly when every code point of the body is whitespace
  (the empty body included).
\<close>

lemma strip_empty_iff: "strip b = [] \<longleftrightarrow> (\<forall>c \<in> set b. isspace c)"
proof
  assume e: "strip b = []"
  then have r: "dropWhile isspace (rev (dropWhile isspace b)) = []"
    by (simp add: strip_def)
  have "dropWhile isspace b = []"
  proof (rule ccontr)
    assume n: "dropWhile isspace b \<noteq> []"
    then have "\<not> isspace (hd (dropWhile isspace b))"
      by (rule hd_dropWhile)
    moreover have "hd (dropWhile isspace b) \<in> set (rev (dropWhile isspace b))"
      using n by simp
    moreover have "\<forall>c \<in> set (rev (dropWhile isspace b)). isspace c"
      using r by (simp only: dropWhile_eq_Nil_conv)
    ultimately show False by blast
  qed
  then show "\<forall>c \<in> set b. isspace c"
    by (simp only: dropWhile_eq_Nil_conv)
next
  assume "\<forall>c \<in> set b. isspace c"
  then have d: "dropWhile isspace b = []"
    by (simp only: dropWhile_eq_Nil_conv)
  show "strip b = []"
    unfolding strip_def d by simp
qed

lemma task_comment_unfold_blank:
  assumes "user r = Some u" "method r = ''POST''" "get_object (Task_objects s) tid = Some t"
    "task_comment_allowed u t" "POST r ''comment_body'' = Some b" "strip b = []"
  shows "task_comment tid r s =
     (Inr (HttpResponseRedirect (ToObject tid)),
      s\<lparr>messages := messages s @ [(ERROR, ''Missing required fields'')]\<rparr>)"
  unfolding task_comment_unfold[OF assms(1,2,3)] using assms(4,5,6) by simp

lemma task_comment_unfold_stored:
  assumes "user r = Some u" "method r = ''POST''" "get_object (Task_objects s) tid = Some t"
    "task_comment_allowed u t" "POST r ''comment_body'' = Some b" "strip b \<noteq> []"
  shows "task_comment tid r s =
     (Inr (HttpResponseRedirect (ToObject tid)),
      s\<lparr>Comment_objects := Comment_objects s @ [\<lparr>author = u, task = tid, body = b\<rparr>],
        messages := messages s @ [(SUCCESS, ''The comment is added succesfully'')]\<rparr>)"
  unfolding task_comment_unfold[OF assms(1,2,3)] using assms(4,5,6) by simp

lemma task_comment_unfold_no_key:
  assumes "user r = Some u" "method r = ''POST''" "get_object (Task_objects s) tid = Some t"
    "task_comment_allowed u t" "POST r ''comment_body'' = None"
  shows "task_comment tid r s = (Inl AttributeError, s)"
  unfolding task_comment_unfold[OF assms(1,2,3)] using assms(4,5) by simp

section \<open>The example data, evaluated\<close>

lemma get_object_state0:
  "get_object (Task_objects state0) 1 = Some task1"
  "get_object (Task_objects state0) 2 = Some task2"
  "get_object (Task_objects state0) 3 = Some task3"
  by (simp_all add: get_object_def state0_def task1_def task2_def task3_def)

lemma requests_simps:
  "user (get_by u) = Some u" "method (get_by u) = ''GET''" "POST (get_by u) = Map.empty"
  "user (post_by u d) = Some u" "method (post_by u d) = ''POST''" "POST (post_by u d) = d"
  by (simp_all add: get_by_def post_by_def)

lemma allowed_examples:
  "task_comment_allowed 9 task1" "task_detail_allowed 9 task1"
  "\<not> task_comment_allowed 9 task2" "\<not> task_detail_allowed 9 task2"
  "task_comment_allowed 7 task1" "task_comment_allowed 8 task1"
  by (simp_all add: task_comment_allowed_def task_detail_allowed_def task1_def task2_def team0_def)

lemma task_fields_examples:
  "creator task2 = 8" "status task2 = ''PROG''" "assigned_to task2 = [8, 7]"
  "creator task1 = 7" "status task1 = ''PLAN''" "assigned_to task1 = [7, 8]"
  by (simp_all add: task1_def task2_def)

lemma strip_examples:
  "strip [0x20, 0x20, 0x20] = []"
  "strip [0xA0, 0x2003, 0x3000, 0x85] = []"
  "strip [0xA0, 0x68, 0x69, 0x20] = [0x68, 0x69]"
  "strip [] = []"
  by (simp_all add: strip_def isspace_def)

lemma fresh_id_state0: "fresh_id (Task_objects state0) = 4"
  by (simp add: fresh_id_def state0_def task1_def task2_def task3_def)

lemma queries_state0:
  "completed_tasks_query 7 (Task_objects state0) = [task3]"
  "tasks_query 7 (Task_objects state0) = [task1, task2]"
  by (simp_all add: completed_tasks_query_def tasks_query_def filter_creator_or_assigned_def
      joined_def state0_def task1_def task2_def task3_def team0_def)

section \<open>The claims\<close>

text \<open>
  C1: for an authenticated requester and an existing task, \<^verbatim>\<open>task_accept\<close> succeeds only
  when the requester is among the assigned users and the status is PLAN. It then redirects
  to the task, and the stored task has status PROG, today's date as accepted date and the
  requester as accepted\_by; every other task, the teams and the comments are as before.
  In every other case it raises PermissionDenied and the state is unchanged.
\<close>

theorem task_accept_spec:
  assumes "user r = Some u" and "method r = ''GET''"
    and "get_object (Task_objects s) tid = Some t"
  shows "(if u \<in> set (assigned_to t) \<and> status t = ''PLAN'' then
            fst (task_accept e tid r s) = Inr (HttpResponseRedirect (ToObject tid)) \<and>
            get_object (Task_objects (snd (task_accept e tid r s))) tid =
              Some (t\<lparr>status := ''PROG'', accepted_date := Some (today e), accepted_by := Some u\<rparr>) \<and>
            (\<forall>tid'. tid' \<noteq> tid \<longrightarrow>
               get_object (Task_objects (snd (task_accept e tid r s))) tid' =
               get_object (Task_objects s) tid') \<and>
            Team_objects (snd (task_accept e tid r s)) = Team_objects s \<and>
            Comment_objects (snd (task_accept e tid r s)) = Comment_objects s
          else task_accept e tid r s = (Inl PermissionDenied, s))"
proof (cases "u \<in> set (assigned_to t) \<and> status t = ''PLAN''")
  case True
  let ?t' = "t\<lparr>status := ''PROG'', accepted_date := Some (today e), accepted_by := Some u\<rparr>"
  have tid: "task_id ?t' = tid"
    using get_object_SomeD[OF assms(3)] by simp
  have same: "get_object (Task_update ?t' (Task_objects s)) tid = Some ?t'"
    by (rule get_object_Task_update_same[OF assms(3) tid])
  have other: "get_object (Task_update ?t' (Task_objects s)) tid' = get_object (Task_objects s) tid'"
    if "tid' \<noteq> tid" for tid'
    using that tid by (simp add: get_object_Task_update_other)
  show ?thesis
    using True same other by (simp add: task_accept_unfold[OF assms])
next
  case False
  have "task_accept e tid r s = (Inl PermissionDenied, s)"
    using False by (simp only: task_accept_unfold[OF assms] if_False)
  then show ?thesis
    using False by (simp only: if_False)
qed

theorem task_accept_spec_witness:
  "fst (task_accept env0 1 (get_by 8) state0) = Inr (HttpResponseRedirect (ToObject 1)) \<and>
   get_object (Task_objects (snd (task_accept env0 1 (get_by 8) state0))) 1 =
     Some (task1\<lparr>status := ''PROG'', accepted_date := Some 738000, accepted_by := Some 8\<rparr>) \<and>
   task_accept env0 1 (get_by 9) state0 = (Inl PermissionDenied, state0) \<and>
   task_accept env0 2 (get_by 8) state0 = (Inl PermissionDenied, state0)"
  using task_accept_spec[of "get_by 8" 8 state0 1 task1 env0]
    task_accept_spec[of "get_by 9" 9 state0 1 task1 env0]
    task_accept_spec[of "get_by 8" 8 state0 2 task2 env0]
  by (simp add: get_by_def state0_def task1_def task2_def task3_def team0_def env0_def
      get_object_def)

text \<open>
  C2: for an authenticated requester and an existing task, \<^verbatim>\<open>task_mark_completed\<close>
  succeeds only when the requester is the creator or among the assigned users, and the
  status is PROG. It then redirects to the task, and the stored task has status COMP and
  today's date as completed date. In every other case it raises PermissionDenied and the
  state is unchanged.
\<close>

theorem task_mark_completed_spec:
  assumes "user r = Some u" and "method r = ''GET''"
    and "get_object (Task_objects s) tid = Some t"
  shows "(if (u = creator t \<or> u \<in> set (assigned_to t)) \<and> status t = ''PROG'' then
            fst (task_mark_completed e tid r s) = Inr (HttpResponseRedirect (ToObject tid)) \<and>
            get_object (Task_objects (snd (task_mark_completed e tid r s))) tid =
              Some (t\<lparr>status := ''COMP'', completed_date := Some (today e)\<rparr>) \<and>
            (\<forall>tid'. tid' \<noteq> tid \<longrightarrow>
               get_object (Task_objects (snd (task_mark_completed e tid r s))) tid' =
               get_object (Task_objects s) tid') \<and>
            Team_objects (snd (task_mark_completed e tid r s)) = Team_objects s \<and>
            Comment_objects (snd (task_mark_completed e tid r s)) = Comment_objects s
          else task_mark_completed e tid r s = (Inl PermissionDenied, s))"
proof (cases "(u = creator t \<or> u \<in> set (assigned_to t)) \<and> status t = ''PROG''")
  case True
  let ?t' = "t\<lparr>status := ''COMP'', completed_date := Some (today e)\<rparr>"
  have tid: "task_id ?t' = tid"
    using get_object_SomeD[OF assms(3)] by simp
  have same: "get_object (Task_update ?t' (Task_objects s)) tid = Some ?t'"
    by (rule get_object_Task_update_same[OF assms(3) tid])
  have other: "get_object (Task_update ?t' (Task_objects s)) tid' = get_object (Task_objects s) tid'"
    if "tid' \<noteq> tid" for tid'
    using that tid by (simp add: get_object_Task_update_other)
  have "task_mark_completed e tid r s =
          (Inr (HttpResponseRedirect (ToObject tid)),
           s\<lparr>Task_objects := Task_update ?t' (Task_objects s),
             messages := messages s @ [(SUCCESS, ''The task is marked as Completed successfully!'')]\<rparr>)"
    unfolding task_mark_completed_unfold[OF assms] by (rule if_P[OF True])
  then show ?thesis
    unfolding if_P[OF True] using same other by simp
next
  case False
  have "task_mark_completed e tid r s = (Inl PermissionDenied, s)"
    using False by (simp only: task_mark_completed_unfold[OF assms] if_False)
  then show ?thesis
    using False by (simp only: if_False)
qed

theorem task_mark_completed_spec_witness:
  "fst (task_mark_completed env0 2 (get_by 7) state0) = Inr (HttpResponseRedirect (ToObject 2)) \<and>
   get_object (Task_objects (snd (task_mark_completed env0 2 (get_by 7) state0))) 2 =
     Some (task2\<lparr>status := ''COMP'', completed_date := Some 738000\<rparr>) \<and>
   task_mark_completed env0 2 (get_by 9) state0 = (Inl PermissionDenied, state0) \<and>
   task_mark_completed env0 1 (get_by 7) state0 = (Inl PermissionDenied, state0)"
  using task_mark_completed_spec[of "get_by 7" 7 state0 2 task2 env0]
    task_mark_completed_spec[of "get_by 9" 9 state0 2 task2 env0]
    task_mark_completed_spec[of "get_by 7" 7 state0 1 task1 env0]
  by (simp add: get_by_def state0_def task1_def task2_def task3_def team0_def env0_def
      get_object_def)

text \<open>
  C3: for an authenticated requester and an existing task, \<^verbatim>\<open>task_delete\<close> and
  \<^verbatim>\<open>task_edit\<close> succeed only when the requester is the creator and the status is PLAN:
  the delete then removes the task, the edit answers without an error. Otherwise both raise
  PermissionDenied with the state unchanged, and the task is still there.
\<close>

theorem task_delete_edit_spec:
  assumes "user rd = Some u" and "method rd = ''GET''"
    and "user re = Some u" and "method re = ''GET'' \<or> method re = ''POST''"
    and "get_object (Task_objects s) tid = Some t"
  shows "(if u = creator t \<and> status t = ''PLAN'' then
            fst (task_delete tid rd s) = Inr (HttpResponseRedirect (ToName ''app:index'')) \<and>
            get_object (Task_objects (snd (task_delete tid rd s))) tid = None \<and>
            (\<exists>resp. fst (task_edit e tid re s) = Inr resp)
          else
            task_delete tid rd s = (Inl PermissionDenied, s) \<and>
            get_object (Task_objects (snd (task_delete tid rd s))) tid = Some t \<and>
            task_edit e tid re s = (Inl PermissionDenied, s) \<and>
            get_object (Task_objects (snd (task_edit e tid re s))) tid = Some t)"
proof (cases "u = creator t \<and> status t = ''PLAN''")
  case True
  have del: "task_delete tid rd s =
      (Inr (HttpResponseRedirect (ToName ''app:index'')),
       s\<lparr>Task_objects := filter (\<lambda>t'. task_id t' \<noteq> tid) (Task_objects s),
         Comment_objects := filter (\<lambda>c. task c \<noteq> tid) (Comment_objects s),
         messages := messages s @ [(SUCCESS, ''The task is deleted successfully!'')]\<rparr>)"
    unfolding task_delete_unfold[OF assms(1,2,5)] by (rule if_P[OF True])
  have ed: "\<exists>resp. fst (task_edit e tid re s) = Inr resp"
    by (rule task_edit_allowed[OF assms(3,4,5) True])
  show ?thesis
    unfolding if_P[OF True] del using ed by (simp add: get_object_removed)
next
  case False
  have del: "task_delete tid rd s = (Inl PermissionDenied, s)"
    unfolding task_delete_unfold[OF assms(1,2,5)] by (rule if_not_P[OF False])
  have ed: "task_edit e tid re s = (Inl PermissionDenied, s)"
    by (rule task_edit_denied[OF assms(3,4,5) False])
  show ?thesis
    unfolding if_not_P[OF False] del ed using assms(5) by simp
qed

theorem task_delete_edit_spec_witness:
  "fst (task_delete 1 (get_by 7) state0) = Inr (HttpResponseRedirect (ToName ''app:index'')) \<and>
   get_object (Task_objects (snd (task_delete 1 (get_by 7) state0))) 1 = None \<and>
   (\<exists>resp. fst (task_edit env0 1 (post_by 7 Map.empty) state0) = Inr resp) \<and>
   task_delete 1 (get_by 8) state0 = (Inl PermissionDenied, state0) \<and>
   task_edit env0 1 (get_by 8) state0 = (Inl PermissionDenied, state0) \<and>
   task_delete 2 (get_by 8) state0 = (Inl PermissionDenied, state0) \<and>
   task_edit env0 2 (post_by 8 Map.empty) state0 = (Inl PermissionDenied, state0)"
  using task_delete_edit_spec[of "get_by 7" 7 "post_by 7 Map.empty" state0 1 task1 env0]
    task_delete_edit_spec[of "get_by 8" 8 "get_by 8" state0 1 task1 env0]
    task_delete_edit_spec[of "get_by 8" 8 "post_by 8 Map.empty" state0 2 task2 env0]
  by (simp add: get_by_def post_by_def state0_def task1_def task2_def task3_def team0_def
      get_object_def)

text \<open>
  C4: for an authenticated user and a creation form that validates, \<^verbatim>\<open>task_create\<close>
  stores a new task (under an id no task had before) whose creator is that user, whose
  status is PLAN and whose assigned users are exactly that user; it redirects to the new
  task and leaves every other task as it was.
\<close>

theorem task_create_spec:
  assumes "user r = Some u" and "method r = ''POST''"
    and "is_valid e (TaskCreationForm (Some (POST r))
           (filter (\<lambda>tm. leader tm = u) (Team_objects s)))"
  shows "\<exists>t'. fst (task_create e r s) =
                 Inr (HttpResponseRedirect (ToObject (fresh_id (Task_objects s)))) \<and>
              get_object (Task_objects s) (fresh_id (Task_objects s)) = None \<and>
              get_object (Task_objects (snd (task_create e r s))) (fresh_id (Task_objects s)) =
                Some t' \<and>
              creator t' = u \<and> status t' = ''PLAN'' \<and> assigned_to t' = [u] \<and>
              set (assigned_to t') = {u} \<and>
              (\<forall>tid. tid \<noteq> fresh_id (Task_objects s) \<longrightarrow>
                 get_object (Task_objects (snd (task_create e r s))) tid =
                 get_object (Task_objects s) tid)"
proof -
  let ?ts = "Task_objects s"
  let ?stored = "created_row e u r s"
  let ?inserted = "?stored\<lparr>assigned_to := []\<rparr>"
  have id: "task_id ?stored = fresh_id ?ts" and id0: "task_id ?inserted = fresh_id ?ts"
    by (simp_all add: created_row_fields)
  have fresh: "get_object ?ts (fresh_id ?ts) = None"
    by (rule get_object_fresh_id)
  have ins: "get_object (?ts @ [?inserted]) (fresh_id ?ts) = Some ?inserted"
    by (rule get_object_append_new[OF fresh id0])
  have new: "get_object (Task_update ?stored (?ts @ [?inserted])) (fresh_id ?ts) = Some ?stored"
    by (rule get_object_Task_update_same[OF ins id])
  have old: "get_object (Task_update ?stored (?ts @ [?inserted])) tid = get_object ?ts tid"
    if "tid \<noteq> fresh_id ?ts" for tid
  proof -
    have "get_object (Task_update ?stored (?ts @ [?inserted])) tid = get_object (?ts @ [?inserted]) tid"
      using that id by (simp add: get_object_Task_update_other)
    also have "\<dots> = get_object ?ts tid"
    proof (rule get_object_append_other)
      show "task_id ?inserted \<noteq> tid" using that id0 by simp
    qed
    finally show ?thesis .
  qed
  have resp: "fst (task_create e r s) = Inr (HttpResponseRedirect (ToObject (fresh_id ?ts)))"
    by (rule task_create_unfold(1)[OF assms])
  have rows: "Task_objects (snd (task_create e r s)) = Task_update ?stored (?ts @ [?inserted])"
    by (rule task_create_unfold(2)[OF assms])
  have "fst (task_create e r s) = Inr (HttpResponseRedirect (ToObject (fresh_id ?ts))) \<and>
        get_object ?ts (fresh_id ?ts) = None \<and>
        get_object (Task_objects (snd (task_create e r s))) (fresh_id ?ts) = Some ?stored \<and>
        creator ?stored = u \<and> status ?stored = ''PLAN'' \<and> assigned_to ?stored = [u] \<and>
        set (assigned_to ?stored) = {u} \<and>
        (\<forall>tid. tid \<noteq> fresh_id ?ts \<longrightarrow>
           get_object (Task_objects (snd (task_create e r s))) tid = get_object ?ts tid)"
    unfolding rows using resp fresh new old by (simp add: created_row_fields)
  then show ?thesis by (rule exI)
qed

theorem task_create_spec_witness:
  "\<exists>t'. fst (task_create env0 (post_by 9 Map.empty) state0) =
           Inr (HttpResponseRedirect (ToObject 4)) \<and>
        get_object (Task_objects state0) 4 = None \<and>
        get_object (Task_objects (snd (task_create env0 (post_by 9 Map.empty) state0))) 4 = Some t' \<and>
        creator t' = 9 \<and> status t' = ''PLAN'' \<and> assigned_to t' = [9]"
proof -
  have r: "user (post_by 9 Map.empty) = Some 9" "method (post_by 9 Map.empty) = ''POST''"
    by (simp_all add: post_by_def)
  have v: "is_valid env0 (TaskCreationForm (Some (POST (post_by 9 Map.empty)))
             (filter (\<lambda>tm. leader tm = 9) (Team_objects state0)))"
    by (simp add: env0_def)
  show ?thesis
    using task_create_spec[OF r v] unfolding fresh_id_state0 by blast
qed

text \<open>
  C5: for an authenticated requester, the completed-tasks view shows exactly the stored
  tasks with status COMP that the requester created or is assigned to, the open-tasks view
  exactly those of them whose status is not COMP; neither list repeats a task, neither view
  changes the state, and together the two lists partition the requester's tasks.
\<close>

theorem list_views_spec:
  assumes "user r = Some u" and "method r = ''GET''"
  shows "completed_tasks r s =
           (Inr (Rendered ''app/tasks.html''
                   [(''user'', CUser u),
                    (''tasks'', CTasks (completed_tasks_query u (Task_objects s))),
                    (''completed'', CBool True)]), s) \<and>
         tasks r s =
           (Inr (Rendered ''app/tasks.html''
                   [(''user'', CUser u),
                    (''tasks'', CTasks (tasks_query u (Task_objects s))),
                    (''completed'', CBool False)]), s) \<and>
         set (completed_tasks_query u (Task_objects s)) =
           {t \<in> set (Task_objects s).
              status t = ''COMP'' \<and> (creator t = u \<or> u \<in> set (assigned_to t))} \<and>
         set (tasks_query u (Task_objects s)) =
           {t \<in> set (Task_objects s).
              status t \<noteq> ''COMP'' \<and> (creator t = u \<or> u \<in> set (assigned_to t))} \<and>
         distinct (completed_tasks_query u (Task_objects s)) \<and>
         distinct (tasks_query u (Task_objects s)) \<and>
         set (completed_tasks_query u (Task_objects s)) \<union> set (tasks_query u (Task_objects s)) =
           {t \<in> set (Task_objects s). creator t = u \<or> u \<in> set (assigned_to t)} \<and>
         set (completed_tasks_query u (Task_objects s)) \<inter> set (tasks_query u (Task_objects s)) = {}"
proof -
  have c: "completed_tasks r s =
           (Inr (Rendered ''app/tasks.html''
                   [(''user'', CUser u),
                    (''tasks'', CTasks (completed_tasks_query u (Task_objects s))),
                    (''completed'', CBool True)]), s)"
    using assms
    by (simp add: completed_tasks_def login_required_def require_http_methods_def
        completed_tasks_body_def)
  have t: "tasks r s =
           (Inr (Rendered ''app/tasks.html''
                   [(''user'', CUser u),
                    (''tasks'', CTasks (tasks_query u (Task_objects s))),
                    (''completed'', CBool False)]), s)"
    using assms
    by (simp add: tasks_def login_required_def require_http_methods_def tasks_body_def)
  have sc: "set (completed_tasks_query u (Task_objects s)) =
           {t \<in> set (Task_objects s).
              status t = ''COMP'' \<and> (creator t = u \<or> u \<in> set (assigned_to t))}"
    unfolding completed_tasks_query_def set_remdups set_filter set_filter_creator_or_assigned
    by blast
  have st: "set (tasks_query u (Task_objects s)) =
           {t \<in> set (Task_objects s).
              status t \<noteq> ''COMP'' \<and> (creator t = u \<or> u \<in> set (assigned_to t))}"
    unfolding tasks_query_def set_remdups set_filter set_filter_creator_or_assigned
    by blast
  have dc: "distinct (completed_tasks_query u (Task_objects s))"
    unfolding completed_tasks_query_def by (rule distinct_remdups)
  have dt: "distinct (tasks_query u (Task_objects s))"
    unfolding tasks_query_def by (rule distinct_remdups)
  have un: "set (completed_tasks_query u (Task_objects s)) \<union> set (tasks_query u (Task_objects s)) =
           {t \<in> set (Task_objects s). creator t = u \<or> u \<in> set (assigned_to t)}"
    unfolding sc st by blast
  have dj: "set (completed_tasks_query u (Task_objects s)) \<inter> set (tasks_query u (Task_objects s)) = {}"
    unfolding sc st by blast
  from c t sc st dc dt un dj show ?thesis by (intro conjI)
qed

theorem list_views_spec_witness:
  "completed_tasks (get_by 7) state0 =
     (Inr (Rendered ''app/tasks.html''
             [(''user'', CUser 7), (''tasks'', CTasks [task3]), (''completed'', CBool True)]), state0) \<and>
   tasks (get_by 7) state0 =
     (Inr (Rendered ''app/tasks.html''
             [(''user'', CUser 7), (''tasks'', CTasks [task1, task2]), (''completed'', CBool False)]), state0)"
proof -
  have r: "user (get_by 7) = Some 7" "method (get_by 7) = ''GET''"
    by (simp_all add: get_by_def)
  from list_views_spec[OF r, of state0]
  show ?thesis unfolding queries_state0 by blast
qed

text \<open>
  C6: the predicate that decides whether \<^verbatim>\<open>task_detail\<close> renders the page and the one
  that decides whether \<^verbatim>\<open>task_comment\<close> may proceed are the same predicate, the access
  rule of the specification: the requester is the creator, or is assigned, or the task has a
  team and the requester is one of its members.
\<close>

theorem detail_comment_same_predicate:
  assumes "user rg = Some u" and "method rg = ''GET''"
    and "user rp = Some u" and "method rp = ''POST''"
    and "get_object (Task_objects s) tid = Some t"
  shows "task_detail_allowed u t = task_comment_allowed u t \<and>
         task_comment_allowed u t = spec_may_access u t \<and>
         (fst (task_detail tid rg s) =
            Inr (Rendered ''app/task_detail.html'' [(''user'', CUser u), (''task'', CTask t)]))
           = task_detail_allowed u t \<and>
         (fst (task_detail tid rg s) = Inl PermissionDenied) = (\<not> task_detail_allowed u t) \<and>
         (fst (task_comment tid rp s) \<noteq> Inl PermissionDenied) = task_comment_allowed u t"
proof -
  have eq: "task_detail_allowed u t = task_comment_allowed u t"
    by (simp only: task_detail_allowed_iff task_comment_allowed_iff)
  have d1: "(fst (task_detail tid rg s) =
            Inr (Rendered ''app/task_detail.html'' [(''user'', CUser u), (''task'', CTask t)]))
           = task_detail_allowed u t"
    unfolding task_detail_unfold[OF assms(1,2,5)] by simp
  have d2: "(fst (task_detail tid rg s) = Inl PermissionDenied) = (\<not> task_detail_allowed u t)"
    unfolding task_detail_unfold[OF assms(1,2,5)] by simp
  have c: "(fst (task_comment tid rp s) \<noteq> Inl PermissionDenied) = task_comment_allowed u t"
    by (rule task_comment_not_denied[OF assms(3,4,5)])
  from eq task_comment_allowed_iff d1 d2 c show ?thesis by (intro conjI)
qed

theorem detail_comment_same_predicate_witness:
  "fst (task_detail 1 (get_by 9) state0) =
     Inr (Rendered ''app/task_detail.html'' [(''user'', CUser 9), (''task'', CTask task1)]) \<and>
   fst (task_comment 1 (post_by 9 [''comment_body'' \<mapsto> [0x6F, 0x6B]]) state0) \<noteq> Inl PermissionDenied \<and>
   fst (task_detail 2 (get_by 9) state0) = Inl PermissionDenied \<and>
   \<not> fst (task_comment 2 (post_by 9 [''comment_body'' \<mapsto> [0x6F, 0x6B]]) state0) \<noteq> Inl PermissionDenied"
  using
    detail_comment_same_predicate[OF requests_simps(1,2) requests_simps(4,5) get_object_state0(1),
      of 9 "[''comment_body'' \<mapsto> [0x6F, 0x6B]]"]
    detail_comment_same_predicate[OF requests_simps(1,2) requests_simps(4,5) get_object_state0(2),
      of 9 "[''comment_body'' \<mapsto> [0x6F, 0x6B]]"]
  by (simp add: allowed_examples)

text \<open>
  C7: for each of the handlers edit, delete, accept, mark-completed, comment and detail, a
  request of an authenticated user on an existing task whose authorization condition fails
  raises PermissionDenied and leaves the whole state (tasks, teams, comments, messages)
  exactly as it was.
\<close>

theorem denied_requests_change_nothing:
  assumes "user r = Some u" and "get_object (Task_objects s) tid = Some t"
  shows "((method r = ''GET'' \<or> method r = ''POST'') \<and> \<not> (u = creator t \<and> status t = ''PLAN'')
            \<longrightarrow> task_edit e tid r s = (Inl PermissionDenied, s)) \<and>
         (method r = ''GET'' \<and> \<not> (u = creator t \<and> status t = ''PLAN'')
            \<longrightarrow> task_delete tid r s = (Inl PermissionDenied, s)) \<and>
         (method r = ''GET'' \<and> \<not> (u \<in> set (assigned_to t) \<and> status t = ''PLAN'')
            \<longrightarrow> task_accept e tid r s = (Inl PermissionDenied, s)) \<and>
         (method r = ''GET'' \<and>
            \<not> ((u = creator t \<or> u \<in> set (assigned_to t)) \<and> status t = ''PROG'')
            \<longrightarrow> task_mark_completed e tid r s = (Inl PermissionDenied, s)) \<and>
         (method r = ''POST'' \<and> \<not> task_comment_allowed u t
            \<longrightarrow> task_comment tid r s = (Inl PermissionDenied, s)) \<and>
         (method r = ''GET'' \<and> \<not> task_detail_allowed u t
            \<longrightarrow> task_detail tid r s = (Inl PermissionDenied, s))"
proof (intro conjI impI)
  assume "(method r = ''GET'' \<or> method r = ''POST'') \<and> \<not> (u = creator t \<and> status t = ''PLAN'')"
  then show "task_edit e tid r s = (Inl PermissionDenied, s)"
    using task_edit_denied[OF assms(1) _ assms(2)] by blast
next
  assume a: "method r = ''GET'' \<and> \<not> (u = creator t \<and> status t = ''PLAN'')"
  then have m: "method r = ''GET''" and n: "\<not> (u = creator t \<and> status t = ''PLAN'')" by simp_all
  show "task_delete tid r s = (Inl PermissionDenied, s)"
    unfolding task_delete_unfold[OF assms(1) m assms(2)] by (rule if_not_P[OF n])
next
  assume a: "method r = ''GET'' \<and> \<not> (u \<in> set (assigned_to t) \<and> status t = ''PLAN'')"
  then have m: "method r = ''GET''" and n: "\<not> (u \<in> set (assigned_to t) \<and> status t = ''PLAN'')"
    by simp_all
  show "task_accept e tid r s = (Inl PermissionDenied, s)"
    unfolding task_accept_unfold[OF assms(1) m assms(2)] by (rule if_not_P[OF n])
next
  assume a: "method r = ''GET'' \<and>
    \<not> ((u = creator t \<or> u \<in> set (assigned_to t)) \<and> status t = ''PROG'')"
  then have m: "method r = ''GET''"
    and n: "\<not> ((u = creator t \<or> u \<in> set (assigned_to t)) \<and> status t = ''PROG'')"
    by simp_all
  show "task_mark_completed e tid r s = (Inl PermissionDenied, s)"
    unfolding task_mark_completed_unfold[OF assms(1) m assms(2)] by (rule if_not_P[OF n])
next
  assume a: "method r = ''POST'' \<and> \<not> task_comment_allowed u t"
  then have m: "method r = ''POST''" and n: "\<not> task_comment_allowed u t" by simp_all
  show "task_comment tid r s = (Inl PermissionDenied, s)"
    unfolding task_comment_unfold[OF assms(1) m assms(2)] by (rule if_not_P[OF n])
next
  assume a: "method r = ''GET'' \<and> \<not> task_detail_allowed u t"
  then have m: "method r = ''GET''" and n: "\<not> task_detail_allowed u t" by simp_all
  show "task_detail tid r s = (Inl PermissionDenied, s)"
    unfolding task_detail_unfold[OF assms(1) m assms(2)] by (rule if_not_P[OF n])
qed

theorem denied_requests_change_nothing_witness:
  "task_edit env0 2 (get_by 9) state0 = (Inl PermissionDenied, state0) \<and>
   task_delete 2 (get_by 9) state0 = (Inl PermissionDenied, state0) \<and>
   task_accept env0 2 (get_by 9) state0 = (Inl PermissionDenied, state0) \<and>
   task_mark_completed env0 2 (get_by 9) state0 = (Inl PermissionDenied, state0) \<and>
   task_detail 2 (get_by 9) state0 = (Inl PermissionDenied, state0) \<and>
   task_edit env0 2 (post_by 9 Map.empty) state0 = (Inl PermissionDenied, state0) \<and>
   task_comment 2 (post_by 9 [''comment_body'' \<mapsto> [0x68, 0x69]]) state0 =
     (Inl PermissionDenied, state0)"
  using
    denied_requests_change_nothing[OF requests_simps(1) get_object_state0(2), of 9 env0]
    denied_requests_change_nothing[OF requests_simps(4) get_object_state0(2), of 9
      "[''comment_body'' \<mapsto> [0x68, 0x69]]" env0]
    denied_requests_change_nothing[OF requests_simps(4) get_object_state0(2), of 9
      Map.empty env0]
  by (simp add: requests_simps allowed_examples task_fields_examples)

text \<open>
  C8, as the specification states it, fails: a whitespace-only body creates no comment, but
  the handler does not render a form again; it redirects to the task.
\<close>

theorem task_comment_blank_counterexample:
  "\<not> (Comment_objects
          (snd (task_comment 1 (post_by 7 [''comment_body'' \<mapsto> [0x20, 0x20, 0x20]]) state0)) =
        Comment_objects state0 \<and>
      rerenders (task_comment 1 (post_by 7 [''comment_body'' \<mapsto> [0x20, 0x20, 0x20]]) state0))"
proof -
  have "task_comment 1 (post_by 7 [''comment_body'' \<mapsto> [0x20, 0x20, 0x20]]) state0 =
     (Inr (HttpResponseRedirect (ToObject 1)),
      state0\<lparr>messages := messages state0 @ [(ERROR, ''Missing required fields'')]\<rparr>)"
  proof (rule task_comment_unfold_blank[OF requests_simps(4,5) get_object_state0(1) allowed_examples(5)])
    show "POST (post_by 7 [''comment_body'' \<mapsto> [0x20, 0x20, 0x20]]) ''comment_body'' =
            Some [0x20, 0x20, 0x20]"
      by (simp add: requests_simps)
    show "strip [0x20, 0x20, 0x20] = []"
      by (rule strip_examples(1))
  qed
  then show ?thesis by (simp add: rerenders_def)
qed

text \<open>
  C8, amended: for an authorized requester, a body that \<^verbatim>\<open>str.strip()\<close> empties (an
  empty body, or one made of whitespace only, the Unicode spaces included) creates no
  comment; the handler records the error message ``Missing required fields'' and redirects
  to the task, without rendering a form.
\<close>

theorem task_comment_blank_spec:
  assumes "user r = Some u" and "method r = ''POST''"
    and "get_object (Task_objects s) tid = Some t"
    and "task_comment_allowed u t"
    and "POST r ''comment_body'' = Some b" and "strip b = []"
  shows "fst (task_comment tid r s) = Inr (HttpResponseRedirect (ToObject tid)) \<and>
         Comment_objects (snd (task_comment tid r s)) = Comment_objects s \<and>
         Task_objects (snd (task_comment tid r s)) = Task_objects s \<and>
         Team_objects (snd (task_comment tid r s)) = Team_objects s \<and>
         messages (snd (task_comment tid r s)) =
           messages s @ [(ERROR, ''Missing required fields'')] \<and>
         \<not> rerenders (task_comment tid r s)"
  unfolding task_comment_unfold_blank[OF assms] by (simp add: rerenders_def)

theorem task_comment_blank_spec_witness:
  "fst (task_comment 1 (post_by 7 [''comment_body'' \<mapsto> [0x20, 0x20, 0x20]]) state0) =
     Inr (HttpResponseRedirect (ToObject 1)) \<and>
   Comment_objects
     (snd (task_comment 1 (post_by 7 [''comment_body'' \<mapsto> [0x20, 0x20, 0x20]]) state0)) =
     Comment_objects state0 \<and>
   messages (snd (task_comment 1 (post_by 7 [''comment_body'' \<mapsto> [0x20, 0x20, 0x20]]) state0)) =
     messages state0 @ [(ERROR, ''Missing required fields'')] \<and>
   fst (task_comment 1 (post_by 7 [''comment_body'' \<mapsto> [0xA0, 0x2003, 0x3000, 0x85]]) state0) =
     Inr (HttpResponseRedirect (ToObject 1)) \<and>
   Comment_objects
     (snd (task_comment 1 (post_by 7 [''comment_body'' \<mapsto> [0xA0, 0x2003, 0x3000, 0x85]]) state0)) =
     Comment_objects state0"
proof -
  have b: "POST (post_by 7 [''comment_body'' \<mapsto> [0x20, 0x20, 0x20]]) ''comment_body'' =
             Some [0x20, 0x20, 0x20]"
    by (simp add: requests_simps)
  have c: "POST (post_by 7 [''comment_body'' \<mapsto> [0xA0, 0x2003, 0x3000, 0x85]]) ''comment_body'' =
             Some [0xA0, 0x2003, 0x3000, 0x85]"
    by (simp add: requests_simps)
  from task_comment_blank_spec[OF requests_simps(4,5) get_object_state0(1) allowed_examples(5)
      b strip_examples(1)]
    task_comment_blank_spec[OF requests_simps(4,5) get_object_state0(1) allowed_examples(5)
      c strip_examples(2)]
  show ?thesis by blast
qed

text \<open>
  C9: when \<^verbatim>\<open>str.strip()\<close> leaves something of the body, the comment that
  \<^verbatim>\<open>task_comment\<close> stores holds the submitted body as it was sent, leading and trailing
  whitespace included.
\<close>

theorem task_comment_body_verbatim:
  assumes "user r = Some u" and "method r = ''POST''"
    and "get_object (Task_objects s) tid = Some t"
    and "task_comment_allowed u t"
    and "POST r ''comment_body'' = Some b" and "strip b \<noteq> []"
  shows "fst (task_comment tid r s) = Inr (HttpResponseRedirect (ToObject tid)) \<and>
         Comment_objects (snd (task_comment tid r s)) =
           Comment_objects s @ [\<lparr>author = u, task = tid, body = b\<rparr>] \<and>
         body (last (Comment_objects (snd (task_comment tid r s)))) = b"
  unfolding task_comment_unfold_stored[OF assms] by simp

theorem task_comment_body_verbatim_witness:
  "strip [0xA0, 0x68, 0x69, 0x20] = [0x68, 0x69] \<and>
   Comment_objects
     (snd (task_comment 1 (post_by 8 [''comment_body'' \<mapsto> [0xA0, 0x68, 0x69, 0x20]]) state0)) =
     Comment_objects state0 @ [\<lparr>author = 8, task = 1, body = [0xA0, 0x68, 0x69, 0x20]\<rparr>]"
proof -
  have b: "POST (post_by 8 [''comment_body'' \<mapsto> [0xA0, 0x68, 0x69, 0x20]]) ''comment_body'' =
             Some [0xA0, 0x68, 0x69, 0x20]"
    by (simp add: requests_simps)
  have n: "strip [0xA0, 0x68, 0x69, 0x20] \<noteq> []"
    by (simp add: strip_examples)
  from task_comment_body_verbatim[OF requests_simps(4,5) get_object_state0(1) allowed_examples(6)
      b n]
  show ?thesis by (simp add: strip_examples)
qed

text \<open>
  C10: an authorized POST whose data has no \<^verbatim>\<open>comment_body\<close> key raises
  AttributeError and changes nothing; the branch that reports the missing field is reached
  only when the key is present (with a body that strips to nothing).
\<close>

theorem task_comment_missing_key:
  assumes "user r = Some u" and "method r = ''POST''"
    and "get_object (Task_objects s) tid = Some t"
    and "task_comment_allowed u t"
  shows "(POST r ''comment_body'' = None \<longrightarrow> task_comment tid r s = (Inl AttributeError, s)) \<and>
         (messages (snd (task_comment tid r s)) =
            messages s @ [(ERROR, ''Missing required fields'')]
          \<longrightarrow> (\<exists>b. POST r ''comment_body'' = Some b \<and> strip b = []))"
proof (intro conjI impI)
  assume "POST r ''comment_body'' = None"
  then show "task_comment tid r s = (Inl AttributeError, s)"
    by (rule task_comment_unfold_no_key[OF assms])
next
  assume m: "messages (snd (task_comment tid r s)) =
               messages s @ [(ERROR, ''Missing required fields'')]"
  show "\<exists>b. POST r ''comment_body'' = Some b \<and> strip b = []"
  proof (cases "POST r ''comment_body''")
    case None
    from m show ?thesis
      unfolding task_comment_unfold_no_key[OF assms None] by simp
  next
    case (Some b)
    show ?thesis
    proof (cases "strip b = []")
      case True
      with Some show ?thesis by simp
    next
      case False
      from m show ?thesis
        unfolding task_comment_unfold_stored[OF assms Some False] by simp
    qed
  qed
qed

theorem task_comment_missing_key_witness:
  "task_comment 1 (post_by 7 Map.empty) state0 = (Inl AttributeError, state0) \<and>
   task_comment 1 (post_by 7 [''body'' \<mapsto> [0x68, 0x69]]) state0 = (Inl AttributeError, state0)"
  using
    task_comment_missing_key[OF requests_simps(4,5) get_object_state0(1) allowed_examples(5),
      of Map.empty]
    task_comment_missing_key[OF requests_simps(4,5) get_object_state0(1) allowed_examples(5),
      of "[''body'' \<mapsto> [0x68, 0x69]]"]
  by (simp add: requests_simps)

end
